theory Spec2Isabelle
  imports Main "HOL-Library.Sublist"
begin

section \<open>Ingredient comparison between two recipes\<close>

text \<open>
  The function under study is \<^verbatim>\<open>compareIngredients\<close>, which Step 11 of the repository's
  tutorial gives as \<^verbatim>\<open>client/src/utils/compareIngredients.js\<close>:
  \<^verbatim>\<open>
  function compareIngredients(recipe1, recipe2) {
    const commonIngredients = recipe1.ingredients.filter((ingredient) =>
      recipe2.ingredients.some((ing) => ing.name === ingredient.name)
    );
    console.log("Common ingredients:", commonIngredients); // Test point
    return commonIngredients;
  }
  \<close>
  Recipes and ingredients are plain JavaScript objects whose shape is the one of the
  Mongoose schema \<^verbatim>\<open>RecipeSchema\<close> (\<^verbatim>\<open>server/models/recipe.model.js\<close>). JavaScript checks
  no shape: any property may be absent, and reading an absent property gives
  \<^verbatim>\<open>undefined\<close>. A property that may be absent is an \<open>option\<close> here, \<open>None\<close> standing for
  \<^verbatim>\<open>undefined\<close>.

  The inputs of the model: both arguments are objects, \<^verbatim>\<open>ingredients\<close> is an array of
  objects when it is present, and \<^verbatim>\<open>name\<close> is a string when it is present.
\<close>

subsection \<open>Data model\<close>

text \<open>
  An entry of \<^verbatim>\<open>ingredients\<close>: \<^verbatim>\<open>{ name: String, amount: Number, unit: String }\<close>.
  The comparison never reads \<^verbatim>\<open>amount\<close>, so the type of numbers stays a parameter.
\<close>

record 'n ingredient =
  name :: "string option"
  amount :: "'n option"
  unit :: "string option"

text \<open>
  A recipe: of the schema's properties only \<^verbatim>\<open>title\<close> and \<^verbatim>\<open>ingredients\<close> are kept;
  \<^verbatim>\<open>ingredients\<close> is the only one the comparison reads.
\<close>

record 'n recipe =
  title :: "string option"
  ingredients :: "'n ingredient list option"

text \<open>
  The only fault the function can raise on such objects: calling a method of
  \<^verbatim>\<open>undefined\<close> (\<^verbatim>\<open>undefined.filter\<close>, \<^verbatim>\<open>undefined.some\<close>) is a \<^verbatim>\<open>TypeError\<close>.
\<close>

datatype error = TypeError

subsection \<open>The array methods\<close>

text \<open>
  \<^verbatim>\<open>Array.prototype.some\<close>: the elements are tested from left to right, and the first
  one that passes ends the scan.
\<close>

fun some :: "('a \<Rightarrow> bool) \<Rightarrow> 'a list \<Rightarrow> bool" where
  "some p [] = False"
| "some p (x # xs) = (if p x then True else some p xs)"

text \<open>
  \<^verbatim>\<open>Array.prototype.filter\<close>: the callback runs on the elements from left to right,
  the elements it accepts are collected in that order in a new array, and an exception
  of the callback ends the whole call.
\<close>

fun filter_js :: "('a \<Rightarrow> error + bool) \<Rightarrow> 'a list \<Rightarrow> error + 'a list" where
  "filter_js p [] = Inr []"
| "filter_js p (x # xs) =
     (case p x of
        Inl e \<Rightarrow> Inl e
      | Inr b \<Rightarrow>
          (case filter_js p xs of
             Inl e \<Rightarrow> Inl e
           | Inr kept \<Rightarrow> Inr (if b then x # kept else kept)))"

subsection \<open>compareIngredients\<close>

text \<open>
  The strict equality \<^verbatim>\<open>===\<close> of two \<^verbatim>\<open>name\<close> values, each a string or \<^verbatim>\<open>undefined\<close>:
  two strings are equal when they are the same sequence of characters (nothing is
  trimmed and no letter case is folded), \<^verbatim>\<open>undefined === undefined\<close> is true, and a
  string never equals \<^verbatim>\<open>undefined\<close>.
\<close>

definition strict_eq :: "string option \<Rightarrow> string option \<Rightarrow> bool" where
  "strict_eq a b = (case a of
       None \<Rightarrow> (case b of None \<Rightarrow> True | Some _ \<Rightarrow> False)
     | Some s \<Rightarrow> (case b of None \<Rightarrow> False | Some t \<Rightarrow> s = t))"

text \<open>
  The callback given to \<^verbatim>\<open>filter\<close>:
  \<^verbatim>\<open>(ingredient) => recipe2.ingredients.some((ing) => ing.name === ingredient.name)\<close>.
  \<^verbatim>\<open>recipe2.ingredients\<close> is read at each call of the callback, so only when the first
  recipe's list has an element.
\<close>

definition matches :: "'n recipe \<Rightarrow> 'n ingredient \<Rightarrow> error + bool" where
  "matches recipe2 ingredient =
     (case ingredients recipe2 of
        None \<Rightarrow> Inl TypeError
      | Some ys \<Rightarrow> Inr (some (\<lambda>ing. strict_eq (name ing) (name ingredient)) ys))"

text \<open>
  The function returns the array \<^verbatim>\<open>commonIngredients\<close>, or raises. The line written to the
  console is part of the store-level model below.
\<close>

definition compareIngredients :: "'n recipe \<Rightarrow> 'n recipe \<Rightarrow> error + 'n ingredient list" where
  "compareIngredients recipe1 recipe2 =
     (case ingredients recipe1 of
        None \<Rightarrow> Inl TypeError
      | Some xs \<Rightarrow> filter_js (matches recipe2) xs)"

subsection \<open>Auxiliary notions\<close>

text \<open>An ingredient object that has only a name, as in the source's sample call.\<close>

definition named :: "string \<Rightarrow> 'n ingredient" where
  "named s = \<lparr>name = Some s, amount = None, unit = None\<rparr>"

text \<open>Whether an ingredient object has a \<^verbatim>\<open>name\<close> property.\<close>

definition has_name :: "'n ingredient \<Rightarrow> bool" where
  "has_name i = (name i \<noteq> None)"

text \<open>A recipe object that has only an ingredient list, as in the source's sample call.\<close>

definition recipe_of :: "'n ingredient list \<Rightarrow> 'n recipe" where
  "recipe_of xs = \<lparr>title = None, ingredients = Some xs\<rparr>"

text \<open>Whether an ingredient's name is the name of an entry of the list \<open>ys\<close>.\<close>

definition name_in :: "'n ingredient list \<Rightarrow> 'n ingredient \<Rightarrow> bool" where
  "name_in ys i = (\<exists>ing \<in> set ys. name ing = name i)"

text \<open>
  The set of the names in a list of ingredients: the names of the entries that have one.
\<close>

definition names :: "'n ingredient list \<Rightarrow> string set" where
  "names ys = set (List.map_filter name ys)"

section \<open>The store-level model\<close>

text \<open>
  JavaScript passes objects and arrays by reference: the two arguments are references to
  recipe objects, \<^verbatim>\<open>recipe.ingredients\<close> holds a reference to an array, and an array holds
  references to ingredient objects. To state what the call writes, the objects are
  placed in a store. An address is an index into the list of the allocated objects, and
  a new object is put at the end of that list.
\<close>

type_synonym addr = nat

datatype 'n obj =
    RecipeObj "string option" "addr option"
  | IngredientObj "'n ingredient"
  | ArrayObj "addr list"

text \<open>The state: the allocated objects, and the lines that \<^verbatim>\<open>console.log\<close> has written.\<close>

record 'n state =
  heap :: "'n obj list"
  console :: "(string \<times> addr) list"

definition lookup :: "'n obj list \<Rightarrow> addr \<Rightarrow> 'n obj option" where
  "lookup h a = (if a < length h then Some (h ! a) else None)"

text \<open>
  Reading \<^verbatim>\<open>r.ingredients\<close> and \<^verbatim>\<open>a.name\<close>: an object that has no such property gives
  \<^verbatim>\<open>undefined\<close>.
\<close>

definition get_ingredients :: "'n obj list \<Rightarrow> addr \<Rightarrow> addr option" where
  "get_ingredients h r = (case lookup h r of Some (RecipeObj t i) \<Rightarrow> i | _ \<Rightarrow> None)"

definition get_name :: "'n obj list \<Rightarrow> addr \<Rightarrow> string option" where
  "get_name h a = (case lookup h a of Some (IngredientObj i) \<Rightarrow> name i | _ \<Rightarrow> None)"

text \<open>
  The receiver of \<^verbatim>\<open>.filter(...)\<close> and of \<^verbatim>\<open>.some(...)\<close>: \<^verbatim>\<open>undefined\<close> has no methods, and
  an object that is not an array has neither of the two methods; both calls are a
  \<^verbatim>\<open>TypeError\<close>.
\<close>

definition get_elements :: "'n obj list \<Rightarrow> addr option \<Rightarrow> error + addr list" where
  "get_elements h v =
     (case v of
        None \<Rightarrow> Inl TypeError
      | Some a \<Rightarrow> (case lookup h a of Some (ArrayObj xs) \<Rightarrow> Inr xs | _ \<Rightarrow> Inl TypeError))"

text \<open>The callback of \<^verbatim>\<open>filter\<close>: it reads the store and writes nothing.\<close>

definition matches_st :: "'n obj list \<Rightarrow> addr \<Rightarrow> addr \<Rightarrow> error + bool" where
  "matches_st h recipe2 ingredient =
     (case get_elements h (get_ingredients h recipe2) of
        Inl e \<Rightarrow> Inl e
      | Inr ys \<Rightarrow> Inr (some (\<lambda>ing. strict_eq (get_name h ing) (get_name h ingredient)) ys))"

text \<open>Appending the reference \<open>x\<close> to the array at address \<open>c\<close>.\<close>

definition push :: "addr \<Rightarrow> addr \<Rightarrow> 'n state \<Rightarrow> 'n state" where
  "push c x s =
     s\<lparr>heap := (heap s)[c := (case heap s ! c of ArrayObj ks \<Rightarrow> ArrayObj (ks @ [x]) | other \<Rightarrow> other)]\<rparr>"

text \<open>
  The loop of \<^verbatim>\<open>Array.prototype.filter\<close> over the elements \<open>xs\<close> of the receiver, with the
  result array already allocated at \<open>c\<close>: an accepted element is appended to the result
  array, and an exception of the callback leaves the loop with the store as it is then.
\<close>

fun filter_st ::
  "('n obj list \<Rightarrow> addr \<Rightarrow> error + bool) \<Rightarrow> addr \<Rightarrow> addr list \<Rightarrow> 'n state
     \<Rightarrow> (error + unit) \<times> 'n state" where
  "filter_st p c [] s = (Inr (), s)"
| "filter_st p c (x # xs) s =
     (case p (heap s) x of
        Inl e \<Rightarrow> (Inl e, s)
      | Inr b \<Rightarrow> filter_st p c xs (if b then push c x s else s))"

text \<open>
  The whole function on the store. \<^verbatim>\<open>filter\<close> allocates its result array before the
  loop; \<^verbatim>\<open>console.log\<close> writes the label and the result array.
\<close>

definition compareIngredients_st ::
  "addr \<Rightarrow> addr \<Rightarrow> 'n state \<Rightarrow> (error + addr) \<times> 'n state" where
  "compareIngredients_st recipe1 recipe2 s =
     (case get_elements (heap s) (get_ingredients (heap s) recipe1) of
        Inl e \<Rightarrow> (Inl e, s)
      | Inr xs \<Rightarrow>
          (let commonIngredients = length (heap s);
               s1 = s\<lparr>heap := heap s @ [ArrayObj []]\<rparr>
           in case filter_st (\<lambda>h. matches_st h recipe2) commonIngredients xs s1 of
                (Inl e, s2) \<Rightarrow> (Inl e, s2)
              | (Inr u, s2) \<Rightarrow>
                  (Inr commonIngredients,
                   s2\<lparr>console := console s2 @ [(''Common ingredients:'', commonIngredients)]\<rparr>)))"

text \<open>
  The objects behind the references: what the store-level call works on, seen as values
  of the data model. An object without the properties of an ingredient is an ingredient
  with no property.
\<close>

definition ingredient_at :: "'n obj list \<Rightarrow> addr \<Rightarrow> 'n ingredient" where
  "ingredient_at h a =
     (case lookup h a of
        Some (IngredientObj i) \<Rightarrow> i
      | _ \<Rightarrow> \<lparr>name = None, amount = None, unit = None\<rparr>)"

definition recipe_at :: "'n obj list \<Rightarrow> addr \<Rightarrow> 'n recipe" where
  "recipe_at h r =
     \<lparr>title = (case lookup h r of Some (RecipeObj t i) \<Rightarrow> t | _ \<Rightarrow> None),
      ingredients =
        (case get_elements h (get_ingredients h r) of
           Inl e \<Rightarrow> None
         | Inr xs \<Rightarrow> Some (map (ingredient_at h) xs))\<rparr>"

text \<open>
  The source's sample call laid out in a store: the two recipe objects at the addresses
  0 and 1, their arrays at 2 and 3, and the six ingredient objects after them.
\<close>

definition sample_store :: "int state" where
  "sample_store =
     \<lparr>heap =
        [RecipeObj None (Some 2), RecipeObj None (Some 3),
         ArrayObj [4, 5, 6], ArrayObj [7, 8, 9],
         IngredientObj (named ''spaghetti''), IngredientObj (named ''cheese''),
         IngredientObj (named ''eggs''),
         IngredientObj (named ''cheese''), IngredientObj (named ''tomato''),
         IngredientObj (named ''eggs'')],
      console = []\<rparr>"

section \<open>Properties of the value-level model\<close>

lemma strict_eq_iff: "strict_eq a b \<longleftrightarrow> a = b"
  by (simp add: strict_eq_def split: option.splits)

lemma some_iff: "some p xs \<longleftrightarrow> (\<exists>x \<in> set xs. p x)"
  by (induction xs) auto

lemma filter_js_total:
  "filter_js (\<lambda>x. Inr (q x)) xs = Inr (filter q xs)"
  by (induction xs) auto

lemma filter_js_fails:
  "xs \<noteq> [] \<Longrightarrow> filter_js (\<lambda>x. Inl e) xs = Inl e"
  by (cases xs) auto

lemma matches_Some:
  "ingredients recipe2 = Some ys \<Longrightarrow> matches recipe2 = (\<lambda>i. Inr (name_in ys i))"
  by (simp add: matches_def name_in_def some_iff strict_eq_iff fun_eq_iff)

lemma matches_None:
  "ingredients recipe2 = None \<Longrightarrow> matches recipe2 = (\<lambda>i. Inl TypeError)"
  by (simp add: matches_def fun_eq_iff)

lemma compareIngredients_Some:
  "ingredients recipe1 = Some xs \<Longrightarrow> ingredients recipe2 = Some ys \<Longrightarrow>
   compareIngredients recipe1 recipe2 = Inr (filter (name_in ys) xs)"
  by (simp add: compareIngredients_def matches_Some filter_js_total)

lemma filter_js_subseq: "filter_js p xs = Inr r \<Longrightarrow> subseq r xs"
proof (induction xs arbitrary: r)
  case Nil
  then show ?case by simp
next
  case (Cons x xs)
  from Cons.prems obtain b kept where b: "p x = Inr b"
    and kept: "filter_js p xs = Inr kept" and r: "r = (if b then x # kept else kept)"
    by (auto split: sum.splits)
  from Cons.IH [OF kept] show ?case
    by (auto simp: r intro: list_emb_Cons)
qed

lemma count_list_filter:
  "count_list (filter q xs) i = (if q i then count_list xs i else 0)"
  by (induction xs) auto

lemma compareIngredients_None:
  "ingredients recipe1 = None \<Longrightarrow> compareIngredients recipe1 recipe2 = Inl TypeError"
  by (simp add: compareIngredients_def)

lemma compareIngredients_Nil:
  "ingredients recipe1 = Some [] \<Longrightarrow> compareIngredients recipe1 recipe2 = Inr []"
  by (simp add: compareIngredients_def)

lemma compareIngredients_Some_None:
  "ingredients recipe1 = Some xs \<Longrightarrow> xs \<noteq> [] \<Longrightarrow> ingredients recipe2 = None \<Longrightarrow>
   compareIngredients recipe1 recipe2 = Inl TypeError"
  by (simp add: compareIngredients_def matches_None filter_js_fails)

lemma compareIngredients_Inr:
  "compareIngredients recipe1 recipe2 = Inr r \<Longrightarrow>
   \<exists>xs. ingredients recipe1 = Some xs \<and> subseq r xs"
  by (auto simp: compareIngredients_def split: option.splits dest: filter_js_subseq)

lemma names_iff: "s \<in> names ys \<longleftrightarrow> (\<exists>ing \<in> set ys. name ing = Some s)"
  by (force simp: names_def List.map_filter_def)

lemma name_in_Some: "name i = Some s \<Longrightarrow> name_in ys i \<longleftrightarrow> s \<in> names ys"
  by (simp add: name_in_def names_iff)

lemma name_in_None: "name i = None \<Longrightarrow> name_in ys i \<longleftrightarrow> (\<exists>ing \<in> set ys. \<not> has_name ing)"
  by (simp add: name_in_def has_name_def)

section \<open>Properties of the store-level model\<close>

text \<open>What the loop of \<^verbatim>\<open>filter\<close> writes: nothing but the result array at \<open>c\<close>.\<close>

lemma heap_push_length: "length (heap (push c x s)) = length (heap s)"
  by (simp add: push_def)

lemma heap_push_other: "a \<noteq> c \<Longrightarrow> heap (push c x s) ! a = heap s ! a"
  by (simp add: push_def)

lemma console_push: "console (push c x s) = console s"
  by (simp add: push_def)

lemma filter_st_length: "length (heap (snd (filter_st p c xs s))) = length (heap s)"
  by (induction xs arbitrary: s) (auto simp: heap_push_length split: sum.splits)

lemma filter_st_other: "a \<noteq> c \<Longrightarrow> heap (snd (filter_st p c xs s)) ! a = heap s ! a"
  by (induction xs arbitrary: s) (auto simp: heap_push_other split: sum.splits)

lemma filter_st_console: "console (snd (filter_st p c xs s)) = console s"
  by (induction xs arbitrary: s) (auto simp: console_push split: sum.splits)

lemma filter_st_prefix: "take c (heap (snd (filter_st p c xs s))) = take c (heap s)"
  by (simp add: list_eq_iff_nth_eq filter_st_length filter_st_other)

lemma compareIngredients_st_frame:
  "take (length (heap s)) (heap (snd (compareIngredients_st recipe1 recipe2 s))) = heap s"
proof (cases "get_elements (heap s) (get_ingredients (heap s) recipe1)")
  case (Inl e)
  then show ?thesis by (simp add: compareIngredients_st_def)
next
  case (Inr xs)
  let ?s1 = "s\<lparr>heap := heap s @ [ArrayObj []]\<rparr>"
  let ?r = "filter_st (\<lambda>h. matches_st h recipe2) (length (heap s)) xs ?s1"
  obtain res s2 where r: "?r = (res, s2)"
    by (cases ?r)
  have "take (length (heap s)) (heap (snd ?r)) = heap s"
    by (simp add: filter_st_prefix)
  with r have "take (length (heap s)) (heap s2) = heap s"
    by simp
  with r show ?thesis
    by (simp add: compareIngredients_st_def Inr Let_def split: sum.splits)
qed

lemma heap_push_same:
  "c < length (heap s) \<Longrightarrow> heap s ! c = ArrayObj ks \<Longrightarrow> heap (push c x s) ! c = ArrayObj (ks @ [x])"
  by (simp add: push_def)

lemma filter_st_result:
  "c < length (heap s) \<Longrightarrow> heap s ! c = ArrayObj ks \<Longrightarrow>
   \<exists>kept. heap (snd (filter_st p c xs s)) ! c = ArrayObj (ks @ kept) \<and> subseq kept xs"
proof (induction xs arbitrary: s ks)
  case Nil
  then show ?case by simp
next
  case (Cons x xs)
  show ?case
  proof (cases "p (heap s) x")
    case (Inl e)
    with Cons.prems show ?thesis by simp
  next
    case (Inr b)
    show ?thesis
    proof (cases b)
      case True
      from Cons.prems have "c < length (heap (push c x s))"
        and "heap (push c x s) ! c = ArrayObj (ks @ [x])"
        by (simp_all add: heap_push_length heap_push_same)
      from Cons.IH [OF this] obtain kept where
        "heap (snd (filter_st p c xs (push c x s))) ! c = ArrayObj (ks @ x # kept)"
        "subseq kept xs"
        by auto
      with Inr True show ?thesis
        by (intro exI [of _ "x # kept"]) simp
    next
      case False
      from Cons.IH [OF Cons.prems] obtain kept where
        "heap (snd (filter_st p c xs s)) ! c = ArrayObj (ks @ kept)" "subseq kept xs"
        by auto
      with Inr False show ?thesis
        by (intro exI [of _ kept]) (simp add: list_emb_Cons)
    qed
  qed
qed

lemma error_is_TypeError: "(TypeError = e) = True" "(e = TypeError) = True"
  by (cases e; simp)+

lemma name_ingredient_at: "name (ingredient_at h a) = get_name h a"
  by (simp add: ingredient_at_def get_name_def split: option.splits obj.splits)

lemma some_map: "some p (map f xs) = some (\<lambda>x. p (f x)) xs"
  by (induction xs) auto

lemma matches_recipe_at:
  "matches (recipe_at h recipe2) (ingredient_at h x) = matches_st h recipe2 x"
  by (simp add: matches_def matches_st_def recipe_at_def some_map name_ingredient_at
      error_is_TypeError split: sum.splits)

lemma filter_js_map:
  "filter_js p (map f xs) =
     (case filter_js (\<lambda>x. p (f x)) xs of Inl e \<Rightarrow> Inl e | Inr kept \<Rightarrow> Inr (map f kept))"
  by (induction xs) (auto split: sum.splits)

text \<open>The store with one more object at the end, seen from the old addresses.\<close>

lemma lookup_extended:
  "lookup (h @ [ob]) a = (if a = length h then Some ob else lookup h a)"
  by (auto simp: lookup_def nth_append)

lemma get_name_extended: "get_name (h @ [ArrayObj ks]) a = get_name h a"
  by (auto simp: get_name_def lookup_def nth_append)

lemma get_ingredients_extended: "get_ingredients (h @ [ArrayObj ks]) r = get_ingredients h r"
  by (auto simp: get_ingredients_def lookup_def nth_append)

lemma get_elements_extended:
  "v \<noteq> Some (length h) \<Longrightarrow> get_elements (h @ [ob]) v = get_elements h v"
  by (cases v) (simp_all add: get_elements_def lookup_extended)

lemma matches_st_extended:
  "get_ingredients h recipe2 \<noteq> Some (length h) \<Longrightarrow>
   matches_st (h @ [ArrayObj ks]) recipe2 x = matches_st h recipe2 x"
  by (simp add: matches_st_def get_name_extended get_ingredients_extended get_elements_extended
      cong: sum.case_cong)

text \<open>
  The loop of the store-level \<^verbatim>\<open>filter\<close> against the value-level \<^verbatim>\<open>filter\<close> run with the
  callback on the store before the call.
\<close>

lemma filter_st_refines:
  assumes "heap s = h @ [ArrayObj ks]"
      and "get_ingredients h recipe2 \<noteq> Some (length h)"
  shows "case filter_js (matches_st h recipe2) xs of
           Inl e \<Rightarrow> fst (filter_st (\<lambda>h. matches_st h recipe2) (length h) xs s) = Inl e
         | Inr kept \<Rightarrow>
             fst (filter_st (\<lambda>h. matches_st h recipe2) (length h) xs s) = Inr ()
           \<and> heap (snd (filter_st (\<lambda>h. matches_st h recipe2) (length h) xs s))
               = h @ [ArrayObj (ks @ kept)]"
  using assms(1)
proof (induction xs arbitrary: s ks)
  case Nil
  then show ?case by simp
next
  case (Cons x xs)
  have p: "matches_st (heap s) recipe2 x = matches_st h recipe2 x"
    unfolding Cons.prems using assms(2) by (rule matches_st_extended)
  show ?case
  proof (cases "matches_st h recipe2 x")
    case (Inl e)
    with p show ?thesis by simp
  next
    case (Inr b)
    let ?s' = "if b then push (length h) x s else s"
    have "heap ?s' = h @ [ArrayObj (ks @ (if b then [x] else []))]"
      using Cons.prems by (simp add: push_def)
    from Cons.IH [OF this] p Inr show ?thesis
      by (auto split: sum.splits)
  qed
qed

lemma compareIngredients_recipe_at:
  "compareIngredients (recipe_at h recipe1) (recipe_at h recipe2) =
     (case get_elements h (get_ingredients h recipe1) of
        Inl e \<Rightarrow> Inl e
      | Inr xs \<Rightarrow>
          (case filter_js (matches_st h recipe2) xs of
             Inl e \<Rightarrow> Inl e
           | Inr kept \<Rightarrow> Inr (map (ingredient_at h) kept)))"
proof (cases "get_elements h (get_ingredients h recipe1)")
  case (Inl e)
  then have "ingredients (recipe_at h recipe1) = None"
    by (simp add: recipe_at_def)
  with Inl show ?thesis
    by (simp add: compareIngredients_None error_is_TypeError)
next
  case (Inr xs)
  then have "ingredients (recipe_at h recipe1) = Some (map (ingredient_at h) xs)"
    by (simp add: recipe_at_def)
  then have "compareIngredients (recipe_at h recipe1) (recipe_at h recipe2)
      = filter_js (matches (recipe_at h recipe2)) (map (ingredient_at h) xs)"
    by (simp add: compareIngredients_def)
  with Inr show ?thesis
    by (simp add: filter_js_map matches_recipe_at)
qed

text \<open>
  The store-level call computes what the value-level function computes on the objects
  behind the two references: the same fault, or a new array, put at the end of the
  store, whose entries are references to the objects of the value-level output. The
  hypothesis says that the \<^verbatim>\<open>ingredients\<close> reference of the second recipe is not the first
  free address; a reference held by an object is always allocated.
\<close>

theorem compareIngredients_st_refines:
  assumes "get_ingredients (heap s) recipe2 \<noteq> Some (length (heap s))"
  shows "case compareIngredients_st recipe1 recipe2 s of
           (Inl e, s') \<Rightarrow>
             compareIngredients (recipe_at (heap s) recipe1) (recipe_at (heap s) recipe2) = Inl e
         | (Inr c, s') \<Rightarrow>
             (\<exists>kept. heap s' = heap s @ [ArrayObj kept] \<and> c = length (heap s)
                \<and> compareIngredients (recipe_at (heap s) recipe1) (recipe_at (heap s) recipe2)
                    = Inr (map (ingredient_at (heap s)) kept))"
proof (cases "get_elements (heap s) (get_ingredients (heap s) recipe1)")
  case (Inl e)
  then show ?thesis
    by (simp add: compareIngredients_st_def compareIngredients_recipe_at)
next
  case (Inr xs)
  let ?s1 = "s\<lparr>heap := heap s @ [ArrayObj []]\<rparr>"
  let ?r = "filter_st (\<lambda>h. matches_st h recipe2) (length (heap s)) xs ?s1"
  obtain res s2 where r: "?r = (res, s2)"
    by (cases ?r)
  have "heap ?s1 = heap s @ [ArrayObj []]"
    by simp
  from filter_st_refines [OF this assms, of xs] r Inr show ?thesis
    by (auto simp: compareIngredients_st_def compareIngredients_recipe_at Let_def
        split: sum.splits)
qed

text \<open>The source's sample call on the store.\<close>

lemma sample_run:
  "compareIngredients_st 0 1 sample_store =
     (Inr 10, \<lparr>heap = heap sample_store @ [ArrayObj [5, 6]],
               console = [(''Common ingredients:'', 10)]\<rparr>)"
  by (simp add: compareIngredients_st_def sample_store_def get_elements_def get_ingredients_def
      lookup_def matches_st_def get_name_def strict_eq_def push_def named_def Let_def)

section \<open>The claims\<close>

text \<open>
  C1. For a first recipe whose ingredients are named spaghetti, cheese, eggs and a second
  recipe whose ingredients are named cheese, tomato, eggs (whatever their amounts and
  units), the call returns, and returns exactly two entries: the first recipe's cheese
  and then its eggs.
\<close>

theorem C1_source_example:
  assumes "ingredients recipeA = Some xs"
      and "map name xs = [Some ''spaghetti'', Some ''cheese'', Some ''eggs'']"
      and "ingredients recipeB = Some ys"
      and "map name ys = [Some ''cheese'', Some ''tomato'', Some ''eggs'']"
  shows "compareIngredients recipeA recipeB = Inr [xs ! 1, xs ! 2]
       \<and> map name [xs ! 1, xs ! 2] = [Some ''cheese'', Some ''eggs'']"
proof -
  from assms(2) obtain a b c where xs: "xs = [a, b, c]"
    and n: "name a = Some ''spaghetti''" "name b = Some ''cheese''" "name c = Some ''eggs''"
    by (auto simp: map_eq_Cons_conv)
  have "name_in ys i \<longleftrightarrow> name i \<in> set (map name ys)" for i
    unfolding name_in_def set_map image_iff by metis
  then have "filter (name_in ys) xs = [b, c]"
    unfolding assms(4) by (simp add: xs n)
  with compareIngredients_Some [OF assms(1) assms(3)] show ?thesis
    by (simp add: xs n)
qed

theorem C1_source_example_witness:
  "compareIngredients
     (recipe_of [named ''spaghetti'', named ''cheese'', named ''eggs''])
     (recipe_of [named ''cheese'', named ''tomato'', named ''eggs''])
   = Inr [named ''cheese'', named ''eggs'' :: int ingredient]"
  using C1_source_example
    [of "recipe_of [named ''spaghetti'', named ''cheese'', named ''eggs'' :: int ingredient]"
        "[named ''spaghetti'', named ''cheese'', named ''eggs'']"
        "recipe_of [named ''cheese'', named ''tomato'', named ''eggs'']"
        "[named ''cheese'', named ''tomato'', named ''eggs'']"]
  by (simp add: recipe_of_def named_def)


text \<open>
  C2. The output lists its entries in the relative order they have in the first recipe's
  list: whenever the call returns, the output is a subsequence of that list, and the call
  returns whenever both recipes have a list. For the first recipe eggs, cheese, spaghetti
  and the second recipe spaghetti, cheese, tomato the output is cheese, spaghetti and not
  spaghetti, cheese.
\<close>

theorem C2_order_of_first_recipe:
  "(compareIngredients recipeA recipeB = Inr r \<longrightarrow>
      (\<exists>xs. ingredients recipeA = Some xs \<and> subseq r xs))
 \<and> (ingredients recipeA = Some xs \<and> ingredients recipeB = Some ys \<longrightarrow>
      (\<exists>r. compareIngredients recipeA recipeB = Inr r \<and> subseq r xs))
 \<and> compareIngredients
      (recipe_of [named ''eggs'', named ''cheese'', named ''spaghetti''])
      (recipe_of [named ''spaghetti'', named ''cheese'', named ''tomato''])
    = Inr [named ''cheese'', named ''spaghetti'' :: 'n ingredient]
 \<and> compareIngredients
      (recipe_of [named ''eggs'', named ''cheese'', named ''spaghetti''])
      (recipe_of [named ''spaghetti'', named ''cheese'', named ''tomato''])
    \<noteq> Inr [named ''spaghetti'', named ''cheese'' :: 'n ingredient]"
proof -
  have 1: "compareIngredients recipeA recipeB = Inr r \<longrightarrow>
      (\<exists>xs. ingredients recipeA = Some xs \<and> subseq r xs)"
    by (blast dest: compareIngredients_Inr)
  have 2: "ingredients recipeA = Some xs \<and> ingredients recipeB = Some ys \<longrightarrow>
      (\<exists>r. compareIngredients recipeA recipeB = Inr r \<and> subseq r xs)"
    by (auto simp: compareIngredients_Some)
  have 3: "compareIngredients
      (recipe_of [named ''eggs'', named ''cheese'', named ''spaghetti''])
      (recipe_of [named ''spaghetti'', named ''cheese'', named ''tomato''])
    = Inr [named ''cheese'', named ''spaghetti'' :: 'n ingredient]"
    by (simp add: compareIngredients_def matches_def strict_eq_def recipe_of_def named_def)
  have 4: "named ''cheese'' \<noteq> (named ''spaghetti'' :: 'n ingredient)"
    by (simp add: named_def)
  from 1 2 3 4 show ?thesis
    by simp
qed

theorem C2_order_of_first_recipe_witness:
  "ingredients (recipe_of [named ''eggs'', named ''cheese'', named ''spaghetti'' :: int ingredient])
     = Some [named ''eggs'', named ''cheese'', named ''spaghetti'']
 \<and> ingredients (recipe_of [named ''spaghetti'', named ''cheese'', named ''tomato'' :: int ingredient])
     = Some [named ''spaghetti'', named ''cheese'', named ''tomato'']
 \<and> compareIngredients
      (recipe_of [named ''eggs'', named ''cheese'', named ''spaghetti''])
      (recipe_of [named ''spaghetti'', named ''cheese'', named ''tomato''])
    = Inr [named ''cheese'', named ''spaghetti'' :: int ingredient]
 \<and> (\<exists>xs. ingredients (recipe_of [named ''eggs'', named ''cheese'', named ''spaghetti'' :: int ingredient])
             = Some xs
          \<and> subseq [named ''cheese'', named ''spaghetti''] xs)
 \<and> (\<exists>r. compareIngredients
             (recipe_of [named ''eggs'', named ''cheese'', named ''spaghetti'' :: int ingredient])
             (recipe_of [named ''spaghetti'', named ''cheese'', named ''tomato'']) = Inr r
          \<and> subseq r [named ''eggs'', named ''cheese'', named ''spaghetti''])"
proof -
  have a: "ingredients (recipe_of [named ''eggs'', named ''cheese'', named ''spaghetti'' :: int ingredient])
     = Some [named ''eggs'', named ''cheese'', named ''spaghetti'']"
    by (simp add: recipe_of_def)
  have b: "ingredients (recipe_of [named ''spaghetti'', named ''cheese'', named ''tomato'' :: int ingredient])
     = Some [named ''spaghetti'', named ''cheese'', named ''tomato'']"
    by (simp add: recipe_of_def)
  from a b C2_order_of_first_recipe
    [of "recipe_of [named ''eggs'', named ''cheese'', named ''spaghetti'' :: int ingredient]"
        "recipe_of [named ''spaghetti'', named ''cheese'', named ''tomato'']"
        "[named ''cheese'', named ''spaghetti'']"
        "[named ''eggs'', named ''cheese'', named ''spaghetti'']"
        "[named ''spaghetti'', named ''cheese'', named ''tomato'']"]
  show ?thesis
    by blast
qed

text \<open>
  C3. No deduplication: when both recipes have a list the call returns, and an entry of
  the first recipe whose name is the name of an entry of the second recipe occurs in the
  output as many times as in the first recipe's list. For the first recipe salt, salt,
  pepper and the second recipe salt the output is salt, salt.
\<close>

theorem C3_duplicates_retained:
  "(ingredients recipeA = Some xs \<and> ingredients recipeB = Some ys \<longrightarrow>
      (\<exists>r. compareIngredients recipeA recipeB = Inr r
         \<and> (\<forall>i. (\<exists>ing \<in> set ys. name ing = name i) \<longrightarrow>
                count_list r i = count_list xs i)))
 \<and> compareIngredients
      (recipe_of [named ''salt'', named ''salt'', named ''pepper''])
      (recipe_of [named ''salt''])
    = Inr [named ''salt'', named ''salt'' :: 'n ingredient]"
proof -
  have 1: "ingredients recipeA = Some xs \<and> ingredients recipeB = Some ys \<longrightarrow>
      (\<exists>r. compareIngredients recipeA recipeB = Inr r
         \<and> (\<forall>i. (\<exists>ing \<in> set ys. name ing = name i) \<longrightarrow>
                count_list r i = count_list xs i))"
    by (simp add: compareIngredients_Some count_list_filter name_in_def)
  have 2: "compareIngredients
      (recipe_of [named ''salt'', named ''salt'', named ''pepper''])
      (recipe_of [named ''salt''])
    = Inr [named ''salt'', named ''salt'' :: 'n ingredient]"
    by (simp add: compareIngredients_def matches_def strict_eq_def recipe_of_def named_def)
  from 1 2 show ?thesis
    by simp
qed

theorem C3_duplicates_retained_witness:
  "ingredients (recipe_of [named ''salt'', named ''salt'', named ''pepper'' :: int ingredient])
     = Some [named ''salt'', named ''salt'', named ''pepper'']
 \<and> ingredients (recipe_of [named ''salt'' :: int ingredient]) = Some [named ''salt'']
 \<and> (\<exists>r. compareIngredients
        (recipe_of [named ''salt'', named ''salt'', named ''pepper'' :: int ingredient])
        (recipe_of [named ''salt'']) = Inr r
      \<and> (\<forall>i. (\<exists>ing \<in> set [named ''salt'' :: int ingredient]. name ing = name i) \<longrightarrow>
             count_list r i = count_list [named ''salt'', named ''salt'', named ''pepper''] i))"
proof -
  have a: "ingredients (recipe_of [named ''salt'', named ''salt'', named ''pepper'' :: int ingredient])
     = Some [named ''salt'', named ''salt'', named ''pepper'']"
    by (simp add: recipe_of_def)
  have b: "ingredients (recipe_of [named ''salt'' :: int ingredient]) = Some [named ''salt'']"
    by (simp add: recipe_of_def)
  from a b C3_duplicates_retained
    [of "recipe_of [named ''salt'', named ''salt'', named ''pepper'' :: int ingredient]"
        "[named ''salt'', named ''salt'', named ''pepper'']"
        "recipe_of [named ''salt'']"
        "[named ''salt'']"]
  show ?thesis
    by blast
qed

text \<open>
  C4. Names are compared by strict equality, character by character: when both recipes
  have a list, the call returns the entries of the first recipe, in order, whose
  \<^verbatim>\<open>name\<close> value equals the \<^verbatim>\<open>name\<close> value of at least one entry of the second recipe,
  so an entry of the first recipe is in the output if and only if there is such an entry
  of the second. Names that differ only in case are different: Tomato against tomato
  gives the empty output.
\<close>

theorem C4_strict_name_equality:
  "(ingredients recipeA = Some xs \<and> ingredients recipeB = Some ys \<longrightarrow>
      compareIngredients recipeA recipeB
        = Inr (filter (\<lambda>ingredient. \<exists>ing \<in> set ys. name ing = name ingredient) xs)
    \<and> (\<exists>r. compareIngredients recipeA recipeB = Inr r
         \<and> (\<forall>i. i \<in> set r \<longleftrightarrow> i \<in> set xs \<and> (\<exists>ing \<in> set ys. name ing = name i))))
 \<and> compareIngredients (recipe_of [named ''Tomato'']) (recipe_of [named ''tomato''])
      = Inr ([] :: 'n ingredient list)
 \<and> compareIngredients (recipe_of [named ''tomato'']) (recipe_of [named ''tomato''])
      = Inr [named ''tomato'' :: 'n ingredient]"
proof -
  have eq: "name_in ys = (\<lambda>ingredient. \<exists>ing \<in> set ys. name ing = name ingredient)"
    for ys :: "'a ingredient list"
    by (simp add: name_in_def fun_eq_iff)
  have 1: "ingredients recipeA = Some xs \<and> ingredients recipeB = Some ys \<longrightarrow>
      compareIngredients recipeA recipeB
        = Inr (filter (\<lambda>ingredient. \<exists>ing \<in> set ys. name ing = name ingredient) xs)
    \<and> (\<exists>r. compareIngredients recipeA recipeB = Inr r
         \<and> (\<forall>i. i \<in> set r \<longleftrightarrow> i \<in> set xs \<and> (\<exists>ing \<in> set ys. name ing = name i)))"
    by (simp add: compareIngredients_Some eq)
  have 2: "compareIngredients (recipe_of [named ''Tomato'']) (recipe_of [named ''tomato''])
      = Inr ([] :: 'n ingredient list)"
    by (simp add: compareIngredients_def matches_def strict_eq_def recipe_of_def named_def)
  have 3: "compareIngredients (recipe_of [named ''tomato'']) (recipe_of [named ''tomato''])
      = Inr [named ''tomato'' :: 'n ingredient]"
    by (simp add: compareIngredients_def matches_def strict_eq_def recipe_of_def named_def)
  from 1 2 3 show ?thesis
    by blast
qed

theorem C4_strict_name_equality_witness:
  "ingredients (recipe_of [named ''Tomato'', named ''salt'' :: int ingredient])
     = Some [named ''Tomato'', named ''salt'']
 \<and> ingredients (recipe_of [named ''tomato'', named ''salt'' :: int ingredient])
     = Some [named ''tomato'', named ''salt'']
 \<and> compareIngredients
      (recipe_of [named ''Tomato'', named ''salt'' :: int ingredient])
      (recipe_of [named ''tomato'', named ''salt''])
    = Inr [named ''salt'']"
proof -
  have a: "ingredients (recipe_of [named ''Tomato'', named ''salt'' :: int ingredient])
     = Some [named ''Tomato'', named ''salt'']"
    by (simp add: recipe_of_def)
  have b: "ingredients (recipe_of [named ''tomato'', named ''salt'' :: int ingredient])
     = Some [named ''tomato'', named ''salt'']"
    by (simp add: recipe_of_def)
  have c: "filter (\<lambda>ingredient. \<exists>ing \<in> set [named ''tomato'', named ''salt'' :: int ingredient].
                      name ing = name ingredient)
             [named ''Tomato'', named ''salt'']
           = [named ''salt'']"
    by (simp add: named_def)
  from a b C4_strict_name_equality
    [of "recipe_of [named ''Tomato'', named ''salt'' :: int ingredient]"
        "[named ''Tomato'', named ''salt'']"
        "recipe_of [named ''tomato'', named ''salt'']"
        "[named ''tomato'', named ''salt'']"]
  have "compareIngredients
      (recipe_of [named ''Tomato'', named ''salt'' :: int ingredient])
      (recipe_of [named ''tomato'', named ''salt''])
    = Inr (filter (\<lambda>ingredient. \<exists>ing \<in> set [named ''tomato'', named ''salt'' :: int ingredient].
                      name ing = name ingredient)
             [named ''Tomato'', named ''salt''])"
    by blast
  with a b c show ?thesis
    by simp
qed

text \<open>
  C5. The claim that a recipe without an \<^verbatim>\<open>ingredients\<close> property is treated as a recipe
  with an empty list fails: \<^verbatim>\<open>recipe1.ingredients.filter\<close> is then a method call on
  \<^verbatim>\<open>undefined\<close>. The first theorem evaluates the call on such a first recipe.
\<close>

theorem C5_missing_list_counterexample:
  "compareIngredients
     \<lparr>title = Some ''Carbonara'', ingredients = None\<rparr>
     (recipe_of [named ''cheese'' :: int ingredient])
   = Inl TypeError"
  by (simp add: compareIngredients_def)

text \<open>
  C5 as the code has it. A first recipe without the property makes the call raise
  \<^verbatim>\<open>TypeError\<close>, whatever the second recipe is. A second recipe without the property makes
  the call raise \<^verbatim>\<open>TypeError\<close> when the first recipe's list has an entry, and is never
  looked at when that list is empty: the call then returns the empty output.
\<close>

theorem C5_missing_list_raises:
  "(ingredients recipe1 = None \<longrightarrow> compareIngredients recipe1 recipe2 = Inl TypeError)
 \<and> (ingredients recipe1 = Some xs \<and> ingredients recipe2 = None \<longrightarrow>
      compareIngredients recipe1 recipe2 = (if xs = [] then Inr [] else Inl TypeError))"
  by (auto simp: compareIngredients_None compareIngredients_Nil compareIngredients_Some_None)

theorem C5_missing_list_raises_witness:
  "ingredients \<lparr>title = Some ''Carbonara'', ingredients = None :: int ingredient list option\<rparr> = None
 \<and> compareIngredients
      \<lparr>title = Some ''Carbonara'', ingredients = None\<rparr>
      (recipe_of [named ''cheese'' :: int ingredient])
    = Inl TypeError
 \<and> ingredients (recipe_of [named ''cheese'' :: int ingredient]) = Some [named ''cheese'']
 \<and> compareIngredients
      (recipe_of [named ''cheese'' :: int ingredient])
      \<lparr>title = Some ''Carbonara'', ingredients = None\<rparr>
    = Inl TypeError
 \<and> compareIngredients
      (recipe_of ([] :: int ingredient list))
      \<lparr>title = Some ''Carbonara'', ingredients = None\<rparr>
    = Inr []"
  using
    C5_missing_list_raises
      [of "\<lparr>title = Some ''Carbonara'', ingredients = None :: int ingredient list option\<rparr>"
          "recipe_of [named ''cheese'']" "[]"]
    C5_missing_list_raises
      [of "recipe_of [named ''cheese'' :: int ingredient]"
          "\<lparr>title = Some ''Carbonara'', ingredients = None\<rparr>" "[named ''cheese'']"]
    C5_missing_list_raises
      [of "recipe_of ([] :: int ingredient list)"
          "\<lparr>title = Some ''Carbonara'', ingredients = None\<rparr>" "[]"]
  by (simp add: recipe_of_def)

text \<open>
  C6. The claim that an entry without a \<^verbatim>\<open>name\<close> never matches fails: the name of such an
  entry reads as \<^verbatim>\<open>undefined\<close>, and \<^verbatim>\<open>undefined === undefined\<close> is true. The first theorem
  evaluates the call on two recipes that each have one nameless entry.
\<close>

theorem C6_nameless_entry_counterexample:
  "compareIngredients
     (recipe_of [\<lparr>name = None, amount = Some (1 :: int), unit = Some ''cup''\<rparr>])
     (recipe_of [\<lparr>name = None, amount = Some 2, unit = None\<rparr>])
   = Inr [\<lparr>name = None, amount = Some 1, unit = Some ''cup''\<rparr>]"
  by (simp add: compareIngredients_def matches_def strict_eq_def recipe_of_def)

text \<open>
  C6 as the code has it. When both recipes have a list the call returns and no fault is
  raised. A nameless entry of the first recipe is in the output if and only if the second
  recipe has a nameless entry. A named entry of the first recipe is in the output if and
  only if the second recipe has an entry with that very name, so a nameless entry of the
  second recipe never makes a named entry match: dropping the nameless entries of the
  second recipe leaves the named part of the output as it is.
\<close>

theorem C6_nameless_entries:
  assumes "ingredients recipeA = Some xs" and "ingredients recipeB = Some ys"
  shows "\<exists>r. compareIngredients recipeA recipeB = Inr r
     \<and> (\<forall>i. \<not> has_name i \<longrightarrow>
           (i \<in> set r \<longleftrightarrow> i \<in> set xs \<and> (\<exists>ing \<in> set ys. \<not> has_name ing)))
     \<and> (\<forall>i. has_name i \<longrightarrow>
           (i \<in> set r \<longleftrightarrow> i \<in> set xs \<and> (\<exists>ing \<in> set ys. has_name ing \<and> name ing = name i)))
     \<and> (\<exists>r'. compareIngredients recipeA (recipeB\<lparr>ingredients := Some (filter has_name ys)\<rparr>)
                = Inr r'
           \<and> filter has_name r' = filter has_name r)"
proof -
  let ?B' = "recipeB\<lparr>ingredients := Some (filter has_name ys)\<rparr>"
  have r: "compareIngredients recipeA recipeB = Inr (filter (name_in ys) xs)"
    using assms by (rule compareIngredients_Some)
  have r': "compareIngredients recipeA ?B' = Inr (filter (name_in (filter has_name ys)) xs)"
    using assms(1) by (rule compareIngredients_Some) simp
  have named_part: "name_in (filter has_name ys) i = name_in ys i" if "has_name i" for i
    using that unfolding name_in_def has_name_def by force
  have "filter has_name (filter (name_in (filter has_name ys)) xs)
      = filter has_name (filter (name_in ys) xs)"
    unfolding filter_filter by (rule filter_cong) (auto simp: named_part)
  moreover have "\<forall>i. \<not> has_name i \<longrightarrow>
      (i \<in> set (filter (name_in ys) xs) \<longleftrightarrow> i \<in> set xs \<and> (\<exists>ing \<in> set ys. \<not> has_name ing))"
    by (simp add: name_in_def has_name_def)
  moreover have "\<forall>i. has_name i \<longrightarrow>
      (i \<in> set (filter (name_in ys) xs)
         \<longleftrightarrow> i \<in> set xs \<and> (\<exists>ing \<in> set ys. has_name ing \<and> name ing = name i))"
    unfolding name_in_def has_name_def by force
  ultimately show ?thesis
    unfolding r r' by blast
qed

theorem C6_nameless_entries_witness:
  "ingredients (recipe_of [\<lparr>name = None, amount = Some (1 :: int), unit = Some ''cup''\<rparr>,
                          named ''salt''])
     = Some [\<lparr>name = None, amount = Some 1, unit = Some ''cup''\<rparr>, named ''salt'']
 \<and> ingredients (recipe_of [\<lparr>name = None, amount = Some (2 :: int), unit = None\<rparr>])
     = Some [\<lparr>name = None, amount = Some 2, unit = None\<rparr>]
 \<and> (\<exists>r. compareIngredients
        (recipe_of [\<lparr>name = None, amount = Some (1 :: int), unit = Some ''cup''\<rparr>,
                    named ''salt''])
        (recipe_of [\<lparr>name = None, amount = Some 2, unit = None\<rparr>]) = Inr r
      \<and> \<lparr>name = None, amount = Some 1, unit = Some ''cup''\<rparr> \<in> set r
      \<and> named ''salt'' \<notin> set r)"
  (is "?a \<and> ?b \<and> ?c")
proof -
  have a: ?a and b: ?b
    by (simp_all add: recipe_of_def)
  have n: "\<not> has_name \<lparr>name = None, amount = Some (1 :: int), unit = Some ''cup''\<rparr>"
          "\<not> has_name \<lparr>name = None, amount = Some (2 :: int), unit = None\<rparr>"
          "has_name (named ''salt'' :: int ingredient)"
    by (simp_all add: has_name_def named_def)
  from C6_nameless_entries [OF a b] obtain r where r:
    "compareIngredients
        (recipe_of [\<lparr>name = None, amount = Some (1 :: int), unit = Some ''cup''\<rparr>,
                    named ''salt''])
        (recipe_of [\<lparr>name = None, amount = Some 2, unit = None\<rparr>]) = Inr r"
    and nameless: "\<forall>i. \<not> has_name i \<longrightarrow>
           (i \<in> set r \<longleftrightarrow>
            i \<in> set [\<lparr>name = None, amount = Some 1, unit = Some ''cup''\<rparr>, named ''salt'']
            \<and> (\<exists>ing \<in> set [\<lparr>name = None, amount = Some (2 :: int), unit = None\<rparr>].
                  \<not> has_name ing))"
    and with_name: "\<forall>i. has_name i \<longrightarrow>
           (i \<in> set r \<longleftrightarrow>
            i \<in> set [\<lparr>name = None, amount = Some 1, unit = Some ''cup''\<rparr>, named ''salt'']
            \<and> (\<exists>ing \<in> set [\<lparr>name = None, amount = Some (2 :: int), unit = None\<rparr>].
                  has_name ing \<and> name ing = name i))"
    by blast
  from nameless n(1,2) have "\<lparr>name = None, amount = Some 1, unit = Some ''cup''\<rparr> \<in> set r"
    by simp
  moreover from with_name n(2,3) have "named ''salt'' \<notin> set r"
    by simp
  ultimately show ?thesis
    using a b r by blast
qed

text \<open>
  C7. The empty-input law fails for a first recipe that has no \<^verbatim>\<open>ingredients\<close> property
  (the spec counts such a recipe as an input): the call raises instead of returning the
  empty output.
\<close>

theorem C7_empty_second_counterexample:
  "compareIngredients
     \<lparr>title = Some ''Omelette'', ingredients = None\<rparr>
     (recipe_of ([] :: int ingredient list))
   = Inl TypeError"
  by (simp add: compareIngredients_def)

text \<open>
  C7 as the code has it. For every first recipe that has an ingredient list, the call
  against a recipe with the empty list returns the empty output; and for every second
  recipe, the call of a recipe with the empty list returns the empty output.
\<close>

theorem C7_empty_input_law:
  "(ingredients recipeA = Some xs \<longrightarrow> compareIngredients recipeA (recipe_of []) = Inr [])
 \<and> compareIngredients (recipe_of []) recipeB = Inr []"
proof -
  have e: "ingredients (recipe_of []) = Some ([] :: 'a ingredient list)"
    by (simp add: recipe_of_def)
  have "filter (name_in ([] :: 'a ingredient list)) xs = []"
    by (simp add: name_in_def)
  with e have "ingredients recipeA = Some xs \<longrightarrow> compareIngredients recipeA (recipe_of []) = Inr []"
    by (auto simp: compareIngredients_Some)
  moreover have "compareIngredients (recipe_of []) recipeB = Inr []"
    by (simp add: compareIngredients_Nil recipe_of_def)
  ultimately show ?thesis
    by simp
qed

theorem C7_empty_input_law_witness:
  "ingredients (recipe_of [named ''eggs'' :: int ingredient]) = Some [named ''eggs'']
 \<and> compareIngredients (recipe_of [named ''eggs'' :: int ingredient]) (recipe_of []) = Inr []
 \<and> compareIngredients (recipe_of []) (recipe_of [named ''eggs'' :: int ingredient]) = Inr []"
  (is "?a \<and> ?b \<and> ?c")
proof -
  have a: ?a
    by (simp add: recipe_of_def)
  from a C7_empty_input_law
    [of "recipe_of [named ''eggs'' :: int ingredient]" "[named ''eggs'']"
        "recipe_of [named ''eggs'' :: int ingredient]"]
  show ?thesis
    by blast
qed

text \<open>
  C8. The comparison is not commutative. The first recipe has salt with amount 5, the
  second salt with amount 3: the call returns the first recipe's salt, the swapped call
  the second recipe's salt, and the two results differ.
\<close>

theorem C8_not_commutative:
  "compareIngredients
     (recipe_of [\<lparr>name = Some ''salt'', amount = Some (5 :: int), unit = None\<rparr>])
     (recipe_of [\<lparr>name = Some ''salt'', amount = Some 3, unit = None\<rparr>])
   = Inr [\<lparr>name = Some ''salt'', amount = Some 5, unit = None\<rparr>]
 \<and> compareIngredients
     (recipe_of [\<lparr>name = Some ''salt'', amount = Some (3 :: int), unit = None\<rparr>])
     (recipe_of [\<lparr>name = Some ''salt'', amount = Some 5, unit = None\<rparr>])
   = Inr [\<lparr>name = Some ''salt'', amount = Some 3, unit = None\<rparr>]
 \<and> (\<exists>recipeA recipeB :: int recipe.
        compareIngredients recipeA recipeB \<noteq> compareIngredients recipeB recipeA)"
proof -
  let ?A = "recipe_of [\<lparr>name = Some ''salt'', amount = Some (5 :: int), unit = None\<rparr>]"
  let ?B = "recipe_of [\<lparr>name = Some ''salt'', amount = Some (3 :: int), unit = None\<rparr>]"
  have ab: "compareIngredients ?A ?B
      = Inr [\<lparr>name = Some ''salt'', amount = Some 5, unit = None\<rparr>]"
    by (simp add: compareIngredients_def matches_def strict_eq_def recipe_of_def)
  have ba: "compareIngredients ?B ?A
      = Inr [\<lparr>name = Some ''salt'', amount = Some 3, unit = None\<rparr>]"
    by (simp add: compareIngredients_def matches_def strict_eq_def recipe_of_def)
  have "compareIngredients ?A ?B \<noteq> compareIngredients ?B ?A"
    unfolding ab ba by simp
  then have "\<exists>recipeA recipeB :: int recipe.
        compareIngredients recipeA recipeB \<noteq> compareIngredients recipeB recipeA"
    by blast
  with ab ba show ?thesis
    by blast
qed

text \<open>
  C9. The call changes no object that existed before it: every address allocated before
  the call holds the same object after it, whether the call returns or raises, so both
  recipes, their ingredient arrays and every ingredient entry are as they were. When the
  call returns, the returned reference is a new array at the first free address, and its
  elements are references taken, in their order, from the first recipe's ingredient
  array. On values: every entry of the output is an entry of the first recipe's list.
\<close>

theorem C9_inputs_unchanged:
  "take (length (heap s)) (heap (snd (compareIngredients_st recipe1 recipe2 s))) = heap s
 \<and> (\<forall>a. a < length (heap s) \<longrightarrow>
        lookup (heap (snd (compareIngredients_st recipe1 recipe2 s))) a = lookup (heap s) a)
 \<and> (fst (compareIngredients_st recipe1 recipe2 s) = Inr c \<longrightarrow>
        c = length (heap s)
      \<and> (\<exists>xs kept.
            get_elements (heap s) (get_ingredients (heap s) recipe1) = Inr xs
          \<and> lookup (heap (snd (compareIngredients_st recipe1 recipe2 s))) c = Some (ArrayObj kept)
          \<and> subseq kept xs))
 \<and> (compareIngredients recipeA recipeB = Inr r \<longrightarrow>
        (\<exists>xs. ingredients recipeA = Some xs \<and> subseq r xs \<and> set r \<subseteq> set xs))"
proof -
  let ?res = "compareIngredients_st recipe1 recipe2 s"
  have frame: "take (length (heap s)) (heap (snd ?res)) = heap s"
    by (rule compareIngredients_st_frame)
  have same: "lookup (heap (snd ?res)) a = lookup (heap s) a" if "a < length (heap s)" for a
  proof -
    from that have "take (length (heap s)) (heap (snd ?res)) ! a = heap (snd ?res) ! a"
      by simp
    moreover from arg_cong [OF frame, of length]
    have "length (heap s) \<le> length (heap (snd ?res))"
      by simp
    ultimately show ?thesis
      using that frame by (simp add: lookup_def)
  qed
  have out: "c = length (heap s)
      \<and> (\<exists>xs kept.
            get_elements (heap s) (get_ingredients (heap s) recipe1) = Inr xs
          \<and> lookup (heap (snd ?res)) c = Some (ArrayObj kept)
          \<and> subseq kept xs)" if c: "fst ?res = Inr c"
  proof (cases "get_elements (heap s) (get_ingredients (heap s) recipe1)")
    case (Inl e)
    with c show ?thesis
      by (simp add: compareIngredients_st_def)
  next
    case (Inr xs)
    let ?s1 = "s\<lparr>heap := heap s @ [ArrayObj []]\<rparr>"
    let ?r = "filter_st (\<lambda>h. matches_st h recipe2) (length (heap s)) xs ?s1"
    obtain u s2 where r: "?r = (u, s2)"
      by (cases ?r)
    have "length (heap s) < length (heap ?s1)" and "heap ?s1 ! length (heap s) = ArrayObj ([] @ [])"
      by simp_all
    from filter_st_result [OF this, of "\<lambda>h. matches_st h recipe2" xs] r
    obtain kept where kept: "heap s2 ! length (heap s) = ArrayObj kept" "subseq kept xs"
      by auto
    have "length (heap (snd ?r)) = length (heap ?s1)"
      by (rule filter_st_length)
    with r have len: "length (heap s2) = Suc (length (heap s))"
      by simp
    from c r Inr have "c = length (heap s)" and "heap (snd ?res) = heap s2"
      by (auto simp: compareIngredients_st_def Let_def split: sum.splits)
    with kept len Inr show ?thesis
      by (auto simp: lookup_def)
  qed
  have val: "\<exists>xs. ingredients recipeA = Some xs \<and> subseq r xs \<and> set r \<subseteq> set xs"
    if "compareIngredients recipeA recipeB = Inr r"
  proof -
    from compareIngredients_Inr [OF that] obtain xs
      where "ingredients recipeA = Some xs" "subseq r xs"
      by blast
    then show ?thesis
      by (auto dest: list_emb_set)
  qed
  from frame same out val show ?thesis
    by blast
qed


theorem C9_inputs_unchanged_witness:
  "fst (compareIngredients_st 0 1 sample_store) = Inr 10
 \<and> 10 = length (heap sample_store)
 \<and> take (length (heap sample_store)) (heap (snd (compareIngredients_st 0 1 sample_store)))
     = heap sample_store
 \<and> 2 < length (heap sample_store)
 \<and> lookup (heap (snd (compareIngredients_st 0 1 sample_store))) 2 = lookup (heap sample_store) 2
 \<and> (\<exists>xs kept.
        get_elements (heap sample_store) (get_ingredients (heap sample_store) 0) = Inr xs
      \<and> lookup (heap (snd (compareIngredients_st 0 1 sample_store))) 10 = Some (ArrayObj kept)
      \<and> subseq kept xs)
 \<and> compareIngredients (recipe_at (heap sample_store) 0) (recipe_at (heap sample_store) 1)
     = Inr [named ''cheese'', named ''eggs'']
 \<and> (\<exists>xs. ingredients (recipe_at (heap sample_store) 0) = Some xs
        \<and> subseq [named ''cheese'', named ''eggs''] xs
        \<and> set [named ''cheese'', named ''eggs''] \<subseteq> set xs)"
proof -
  have run: "fst (compareIngredients_st 0 1 sample_store) = Inr 10"
    by (simp add: compareIngredients_st_def sample_store_def get_elements_def
        get_ingredients_def lookup_def matches_st_def get_name_def strict_eq_def push_def
        named_def Let_def)
  have addr: "2 < length (heap sample_store)"
    by (simp add: sample_store_def)
  have val: "compareIngredients (recipe_at (heap sample_store) 0) (recipe_at (heap sample_store) 1)
     = Inr [named ''cheese'', named ''eggs'']"
    by (simp add: compareIngredients_def matches_def strict_eq_def recipe_at_def
        ingredient_at_def sample_store_def get_elements_def get_ingredients_def lookup_def
        named_def)
  from run addr val
    C9_inputs_unchanged
      [where s = sample_store and ?recipe1.0 = 0 and ?recipe2.0 = 1 and c = 10
         and recipeA = "recipe_at (heap sample_store) 0"
         and recipeB = "recipe_at (heap sample_store) 1"
         and r = "[named ''cheese'', named ''eggs'']"]
  show ?thesis
    by blast
qed

text \<open>
  C10. The claim that the second recipe counts only through the set of its ingredient
  names fails when entries without a name are present: a second recipe whose only entry
  has no name and a second recipe with the empty list have the same set of names, the
  empty one, and yet a nameless entry of the first recipe is in the output against the
  former and not against the latter.
\<close>

theorem C10_nameless_second_counterexample:
  "names [\<lparr>name = None, amount = Some (2 :: int), unit = None\<rparr>] = names ([] :: int ingredient list)
 \<and> compareIngredients
      (recipe_of [\<lparr>name = None, amount = Some (1 :: int), unit = Some ''cup''\<rparr>])
      (recipe_of [\<lparr>name = None, amount = Some 2, unit = None\<rparr>])
    = Inr [\<lparr>name = None, amount = Some 1, unit = Some ''cup''\<rparr>]
 \<and> compareIngredients
      (recipe_of [\<lparr>name = None, amount = Some (1 :: int), unit = Some ''cup''\<rparr>])
      (recipe_of [])
    = Inr []"
  by (simp add: names_def List.map_filter_def compareIngredients_def matches_def strict_eq_def
      recipe_of_def)

text \<open>
  C10 as the code has it. Two second recipes whose lists have the same set of names
  (whatever the order, the repetitions, the amounts, the units and the titles) give the
  same result, the same output or the same fault, provided that either both lists or
  neither list has an entry without a name, or that every entry of the first recipe has
  a name.
\<close>

theorem C10_second_recipe_by_names:
  assumes "ingredients recipeB = Some ys" and "ingredients recipeB' = Some ys'"
      and "names ys = names ys'"
  shows "(((\<exists>ing \<in> set ys. \<not> has_name ing) \<longleftrightarrow> (\<exists>ing \<in> set ys'. \<not> has_name ing)) \<longrightarrow>
            compareIngredients recipeA recipeB = compareIngredients recipeA recipeB')
       \<and> (ingredients recipeA = Some xs \<and> (\<forall>i \<in> set xs. has_name i) \<longrightarrow>
            compareIngredients recipeA recipeB = compareIngredients recipeA recipeB')"
proof (intro conjI impI)
  assume nameless: "(\<exists>ing \<in> set ys. \<not> has_name ing) \<longleftrightarrow> (\<exists>ing \<in> set ys'. \<not> has_name ing)"
  have "name_in ys i \<longleftrightarrow> name_in ys' i" for i
  proof (cases "name i")
    case None
    with nameless show ?thesis
      by (simp add: name_in_None)
  next
    case (Some s)
    with assms(3) show ?thesis
      by (simp add: name_in_Some)
  qed
  then have same: "name_in ys = name_in ys'"
    by (simp add: fun_eq_iff)
  show "compareIngredients recipeA recipeB = compareIngredients recipeA recipeB'"
  proof (cases "ingredients recipeA")
    case None
    then show ?thesis
      by (simp add: compareIngredients_None)
  next
    case (Some zs)
    with assms(1,2) same show ?thesis
      by (simp add: compareIngredients_Some)
  qed
next
  assume "ingredients recipeA = Some xs \<and> (\<forall>i \<in> set xs. has_name i)"
  then have xs: "ingredients recipeA = Some xs" and named: "\<And>i. i \<in> set xs \<Longrightarrow> has_name i"
    by simp_all
  have "filter (name_in ys) xs = filter (name_in ys') xs"
  proof (rule filter_cong [OF refl])
    fix i assume "i \<in> set xs"
    then obtain s where "name i = Some s"
      using named [of i] by (auto simp: has_name_def)
    with assms(3) show "name_in ys i = name_in ys' i"
      by (simp add: name_in_Some)
  qed
  with xs assms(1,2) show "compareIngredients recipeA recipeB = compareIngredients recipeA recipeB'"
    by (simp add: compareIngredients_Some)
qed

theorem C10_second_recipe_by_names_witness:
  "ingredients \<lparr>title = Some ''Soup'', ingredients = Some
       [\<lparr>name = Some ''salt'', amount = Some (3 :: int), unit = None\<rparr>,
        \<lparr>name = None, amount = Some 2, unit = None\<rparr>, named ''salt'']\<rparr>
     = Some [\<lparr>name = Some ''salt'', amount = Some 3, unit = None\<rparr>,
             \<lparr>name = None, amount = Some 2, unit = None\<rparr>, named ''salt'']
 \<and> ingredients (recipe_of [\<lparr>name = None, amount = None, unit = Some ''g''\<rparr>,
                           named ''salt'' :: int ingredient])
     = Some [\<lparr>name = None, amount = None, unit = Some ''g''\<rparr>, named ''salt'']
 \<and> ingredients (recipe_of [named ''salt'' :: int ingredient]) = Some [named ''salt'']
 \<and> names [\<lparr>name = Some ''salt'', amount = Some (3 :: int), unit = None\<rparr>,
           \<lparr>name = None, amount = Some 2, unit = None\<rparr>, named ''salt'']
     = names [\<lparr>name = None, amount = None, unit = Some ''g''\<rparr>, named ''salt'' :: int ingredient]
 \<and> names [\<lparr>name = Some ''salt'', amount = Some (3 :: int), unit = None\<rparr>,
           \<lparr>name = None, amount = Some 2, unit = None\<rparr>, named ''salt'']
     = names [named ''salt'' :: int ingredient]
 \<and> compareIngredients
      (recipe_of [\<lparr>name = None, amount = Some 1, unit = Some ''cup''\<rparr>, named ''salt'',
                  named ''eggs''])
      \<lparr>title = Some ''Soup'', ingredients = Some
         [\<lparr>name = Some ''salt'', amount = Some (3 :: int), unit = None\<rparr>,
          \<lparr>name = None, amount = Some 2, unit = None\<rparr>, named ''salt'']\<rparr>
    = compareIngredients
      (recipe_of [\<lparr>name = None, amount = Some 1, unit = Some ''cup''\<rparr>, named ''salt'',
                  named ''eggs''])
      (recipe_of [\<lparr>name = None, amount = None, unit = Some ''g''\<rparr>, named ''salt''])
 \<and> ingredients (recipe_of [named ''salt'', named ''eggs'' :: int ingredient])
     = Some [named ''salt'', named ''eggs'']
 \<and> compareIngredients
      (recipe_of [named ''salt'', named ''eggs''])
      \<lparr>title = Some ''Soup'', ingredients = Some
         [\<lparr>name = Some ''salt'', amount = Some (3 :: int), unit = None\<rparr>,
          \<lparr>name = None, amount = Some 2, unit = None\<rparr>, named ''salt'']\<rparr>
    = compareIngredients
      (recipe_of [named ''salt'', named ''eggs''])
      (recipe_of [named ''salt''])"
  (is "?b \<and> ?b' \<and> ?b'' \<and> ?n' \<and> ?n'' \<and> ?same1 \<and> ?a \<and> ?same2")
proof -
  have b: ?b and b': ?b' and b'': ?b'' and a: ?a
    by (simp_all add: recipe_of_def)
  have n': ?n' and n'': ?n''
    by (simp_all add: names_def List.map_filter_def named_def)
  have nameless:
    "(\<exists>ing \<in> set [\<lparr>name = Some ''salt'', amount = Some (3 :: int), unit = None\<rparr>,
                    \<lparr>name = None, amount = Some 2, unit = None\<rparr>, named ''salt'']. \<not> has_name ing)
     \<longleftrightarrow> (\<exists>ing \<in> set [\<lparr>name = None, amount = None, unit = Some ''g''\<rparr>,
                         named ''salt'' :: int ingredient]. \<not> has_name ing)"
    by (simp add: has_name_def)
  have all_named: "\<forall>i \<in> set [named ''salt'', named ''eggs'' :: int ingredient]. has_name i"
    by (simp add: has_name_def named_def)
  from C10_second_recipe_by_names [OF b b' n'] nameless have same1: ?same1
    by blast
  from C10_second_recipe_by_names [OF b b'' n''] a all_named have same2: ?same2
    by blast
  from b b' b'' n' n'' same1 a same2 show ?thesis
    by (intro conjI)
qed

end
